theory Spec2Isabelle
  imports Complex_Main "HOL-Library.Word"
begin

section \<open>JavaScript values used by the two pages\<close>

text \<open>
  A JavaScript string is a sequence of 16-bit code units; the regular expressions of the
  source carry no \<^verbatim>\<open>u\<close> flag and therefore work on code units.  A \<^verbatim>\<open>Blob\<close> is a
  sequence of bytes.
\<close>

type_synonym jschar = "16 word"
type_synonym jsstring = "jschar list"
type_synonym blob = "8 word list"

text \<open>An ASCII literal of the source as a sequence of code units.\<close>

definition js :: "string \<Rightarrow> jsstring" where
  "js s = map of_char s"

text \<open>
  A number that reaches the pages is a finite double or an infinity: \<^verbatim>\<open>res.json()\<close> and
  \<^verbatim>\<open>Number\<close> on a string of digits never produce \<^verbatim>\<open>NaN\<close>.  The two zeros are not
  told apart.
\<close>

datatype jsnum = Finite real | PosInfinity | NegInfinity

text \<open>Truthiness of an optional string or number: absent, empty and zero are falsy.\<close>

fun truthy_str :: "jsstring option \<Rightarrow> bool" where
  "truthy_str None = False"
| "truthy_str (Some v) = (v \<noteq> [])"

fun truthy_num :: "jsnum option \<Rightarrow> bool" where
  "truthy_num None = False"
| "truthy_num (Some v) = (v \<noteq> Finite 0)"

text \<open>\<^verbatim>\<open>x || d\<close> on an optional string and on an optional number.\<close>

definition or_str :: "jsstring option \<Rightarrow> jsstring \<Rightarrow> jsstring" where
  "or_str x d = (case x of None \<Rightarrow> d | Some v \<Rightarrow> if truthy_str (Some v) then v else d)"

definition or_number :: "jsnum option \<Rightarrow> jsnum \<Rightarrow> jsnum" where
  "or_number x d = (case x of None \<Rightarrow> d | Some v \<Rightarrow> if truthy_num (Some v) then v else d)"

subsection \<open>\<^verbatim>\<open>Number\<close> on a string of decimal digits\<close>

definition digit_value :: "jschar \<Rightarrow> nat" where
  "digit_value c = unat c - 48"

definition decimal :: "jsstring \<Rightarrow> nat" where
  "decimal ds = foldl (\<lambda>n c. 10 * n + digit_value c) 0 ds"

fun bit_length :: "nat \<Rightarrow> nat" where
  "bit_length n = (if n = 0 then 0 else Suc (bit_length (n div 2)))"

declare bit_length.simps [simp del]

text \<open>
  The double nearest to a natural number, ties to the even significand of 53 bits;
  from \<open>2 ^ 1024\<close> on the result is \<^verbatim>\<open>Infinity\<close>.
\<close>

definition to_double :: "nat \<Rightarrow> jsnum" where
  "to_double n =
     (if n < 2 ^ 53 then Finite (real n)
      else let e = bit_length n - 53;
               q = n div 2 ^ e;
               r = n mod 2 ^ e;
               h = 2 ^ (e - 1);
               q' = (if h < r \<or> (r = h \<and> odd q) then q + 1 else q);
               v = q' * 2 ^ e
           in if 2 ^ 1024 \<le> v then PosInfinity else Finite (real v))"

text \<open>\<^verbatim>\<open>Number(s)\<close> for a string \<open>s\<close> of decimal digits, the only use the source makes of it.\<close>

definition Number :: "jsstring \<Rightarrow> jsnum" where
  "Number ds = to_double (decimal ds)"

subsection \<open>\<^verbatim>\<open>String.prototype.trim\<close>\<close>

definition is_whitespace :: "jschar \<Rightarrow> bool" where
  "is_whitespace c \<longleftrightarrow>
     c \<in> {0x09, 0x0A, 0x0B, 0x0C, 0x0D, 0x20, 0xA0, 0x1680, 0x2028, 0x2029,
          0x202F, 0x205F, 0x3000, 0xFEFF} \<or> (0x2000 \<le> c \<and> c \<le> 0x200A)"

definition trim :: "jsstring \<Rightarrow> jsstring" where
  "trim s = rev (dropWhile is_whitespace (rev (dropWhile is_whitespace s)))"

section \<open>Regular expressions of the source\<close>

text \<open>
  Both patterns of the source are a sequence of literal pieces and capture groups, each
  group one character class under a quantifier.  \<^verbatim>\<open>String.prototype.match\<close> without the
  \<^verbatim>\<open>g\<close> flag returns the leftmost match found by backtracking, a greedy quantifier
  trying the longest repetition first and a lazy one the shortest.
\<close>

datatype cclass =
    Dot                               \<comment> \<open>\<^verbatim>\<open>.\<close>: any code unit but a line terminator\<close>
  | Digit                             \<comment> \<open>\<^verbatim>\<open>\d\<close>\<close>
  | Bracket "(jschar \<times> jschar) list"   \<comment> \<open>\<^verbatim>\<open>[a-bc-d]\<close>: a list of ranges\<close>

datatype quantifier = LazyStar | GreedyStar | GreedyPlus

datatype piece = Lit jsstring | Group quantifier cclass

type_synonym regex = "piece list"

fun in_class :: "cclass \<Rightarrow> jschar \<Rightarrow> bool" where
  "in_class Dot c = (c \<noteq> 0x0A \<and> c \<noteq> 0x0D \<and> c \<noteq> 0x2028 \<and> c \<noteq> 0x2029)"
| "in_class Digit c = (0x30 \<le> c \<and> c \<le> 0x39)"
| "in_class (Bracket rs) c = list_ex (\<lambda>(lo, hi). lo \<le> c \<and> c \<le> hi) rs"

fun strip_prefix :: "jsstring \<Rightarrow> jsstring \<Rightarrow> jsstring option" where
  "strip_prefix [] s = Some s"
| "strip_prefix (p # ps) [] = None"
| "strip_prefix (p # ps) (c # cs) = (if p = c then strip_prefix ps cs else None)"

text \<open>
  \<open>repeat q cl k acc s\<close> matches the group at the front of \<open>s\<close>, \<open>acc\<close> being what the
  group has taken so far and \<open>k\<close> the rest of the pattern, which receives the capture and
  the remaining input.
\<close>

fun repeat :: "quantifier \<Rightarrow> cclass \<Rightarrow> (jsstring \<Rightarrow> jsstring \<Rightarrow> 'a option) \<Rightarrow>
    jsstring \<Rightarrow> jsstring \<Rightarrow> 'a option" where
  "repeat LazyStar cl k acc [] = k acc []"
| "repeat LazyStar cl k acc (c # cs) =
     (case k acc (c # cs) of
        Some r \<Rightarrow> Some r
      | None \<Rightarrow> if in_class cl c then repeat LazyStar cl k (acc @ [c]) cs else None)"
| "repeat GreedyStar cl k acc [] = k acc []"
| "repeat GreedyStar cl k acc (c # cs) =
     (if in_class cl c
      then (case repeat GreedyStar cl k (acc @ [c]) cs of
              Some r \<Rightarrow> Some r
            | None \<Rightarrow> k acc (c # cs))
      else k acc (c # cs))"
| "repeat GreedyPlus cl k acc [] = (if acc = [] then None else k acc [])"
| "repeat GreedyPlus cl k acc (c # cs) =
     (if in_class cl c
      then (case repeat GreedyPlus cl k (acc @ [c]) cs of
              Some r \<Rightarrow> Some r
            | None \<Rightarrow> if acc = [] then None else k acc (c # cs))
      else if acc = [] then None else k acc (c # cs))"

text \<open>A match of the whole pattern at the front of the input: the captures, in order.\<close>

fun match_here :: "regex \<Rightarrow> jsstring \<Rightarrow> jsstring list option" where
  "match_here [] s = Some []"
| "match_here (Lit l # ps) s =
     (case strip_prefix l s of None \<Rightarrow> None | Some s' \<Rightarrow> match_here ps s')"
| "match_here (Group q cl # ps) s =
     repeat q cl (\<lambda>cap s'. map_option ((#) cap) (match_here ps s')) [] s"

text \<open>\<^verbatim>\<open>s.match(re)\<close>: the first start position with a match, \<open>None\<close> for \<^verbatim>\<open>null\<close>.\<close>

fun match_regex :: "regex \<Rightarrow> jsstring \<Rightarrow> jsstring list option" where
  "match_regex re [] = match_here re []"
| "match_regex re (c # cs) =
     (case match_here re (c # cs) of Some caps \<Rightarrow> Some caps | None \<Rightarrow> match_regex re cs)"

text \<open>\<^verbatim>\<open>/Weather in (.*?) is (.*) with temperature ([0-9.]+)\<degree>C/\<close>\<close>

definition weather_regex :: regex where
  "weather_regex =
     [Lit (js ''Weather in ''), Group LazyStar Dot, Lit (js '' is ''), Group GreedyStar Dot,
      Lit (js '' with temperature ''), Group GreedyPlus (Bracket [(0x30, 0x39), (0x2E, 0x2E)]),
      Lit [0xB0, 0x43]]"

text \<open>\<^verbatim>\<open>/soil moisture (\d+)%/\<close>\<close>

definition soil_regex :: regex where
  "soil_regex = [Lit (js ''soil moisture ''), Group GreedyPlus Digit, Lit (js ''%'')]"

text \<open>\<^verbatim>\<open>m[i]\<close> for a capture group \<open>i \<ge> 1\<close> of a match \<open>m\<close>.\<close>

definition capture_group :: "jsstring list \<Rightarrow> nat \<Rightarrow> jsstring" where
  "capture_group caps i = caps ! (i - 1)"

section \<open>The backend's reply and what the pages keep of it\<close>

text \<open>
  The JSON body of \<^verbatim>\<open>POST /agent\<close>, with the keys that either page declares
  (\<^verbatim>\<open>AgentResponse\<close> of the irrigation page, the inline type of the home page).  An
  absent or \<^verbatim>\<open>null\<close> key is \<open>None\<close>.
\<close>

record location_json =
  l_name :: "jsstring option"

record condition_json =
  c_text :: "jsstring option"

record current_json =
  cur_condition :: "condition_json option"
  cur_temp_c :: "jsnum option"

record weather_json =
  w_location :: "location_json option"
  w_current :: "current_json option"

record soil_json =
  s_moisture :: "jsnum option"
  s_ph :: "jsnum option"
  s_nitrogen :: "jsstring option"
  s_phosphorus :: "jsstring option"
  s_potassium :: "jsstring option"

record AgentResponse =
  data_message :: "jsstring option"
  data_audio_url :: "jsstring option"
  data_weather :: "weather_json option"
  data_soil :: "soil_json option"
  data_redirect :: "bool option"
  data_redirect_url :: "jsstring option"

text \<open>\<^verbatim>\<open>temp_c: number | string\<close>\<close>

datatype number_or_string = TNumber jsnum | TString jsstring

record Weather =
  location :: jsstring
  condition :: jsstring
  temp_c :: number_or_string

record Soil =
  moisture :: jsnum
  ph :: "jsnum option"
  nitrogen :: "jsstring option"
  phosphorus :: "jsstring option"
  potassium :: "jsstring option"

section \<open>What the pages do to the outside\<close>

datatype js_error =
    ServerError nat        \<comment> \<open>\<^verbatim>\<open>new Error(`Server error: ${res.status}`)\<close>\<close>
  | TransportError         \<comment> \<open>\<^verbatim>\<open>fetch\<close> rejects\<close>
  | JsonError              \<comment> \<open>\<^verbatim>\<open>res.json()\<close> rejects\<close>
  | MicAccessError         \<comment> \<open>\<^verbatim>\<open>getUserMedia\<close> rejects or \<^verbatim>\<open>new MediaRecorder\<close> throws\<close>
  | PlaybackBlocked        \<comment> \<open>\<^verbatim>\<open>audio.play()\<close> rejects\<close>

datatype form_value =
    File blob jsstring jsstring   \<comment> \<open>content, MIME type, file name\<close>
  | Text jsstring

type_synonym FormData = "(jsstring \<times> form_value) list"

datatype effect =
    Fetch FormData           \<comment> \<open>\<^verbatim>\<open>fetch(".../agent", {method: "POST", body})\<close>\<close>
  | ConsoleLog AgentResponse
  | ConsoleWarn js_error
  | ConsoleError js_error
  | Alert jsstring
  | Play jsstring            \<comment> \<open>\<^verbatim>\<open>audio.play()\<close> on an element with this source\<close>
  | RouterPush jsstring      \<comment> \<open>\<^verbatim>\<open>router.push(url)\<close>\<close>

fun is_push :: "effect \<Rightarrow> bool" where
  "is_push (RouterPush u) = True"
| "is_push e = False"

fun is_alert :: "effect \<Rightarrow> bool" where
  "is_alert (Alert m) = True"
| "is_alert e = False"

fun is_fetch :: "effect \<Rightarrow> bool" where
  "is_fetch (Fetch f) = True"
| "is_fetch e = False"

text \<open>
  What the outside answers to one submission: the outcome of \<^verbatim>\<open>fetch\<close> with the parsed
  body (\<open>None\<close> when \<^verbatim>\<open>res.json()\<close> rejects), and whether \<^verbatim>\<open>audio.play()\<close> resolves.
\<close>

datatype fetch_result = Rejected | Response nat "AgentResponse option"

datatype play_result = Resolved | Blocked

datatype mic_result = MicGranted | MicDenied

record environment =
  fetch_result :: fetch_result
  play_result :: play_result
  final_chunk :: blob   \<comment> \<open>the data \<^verbatim>\<open>MediaRecorder.stop()\<close> delivers before \<^verbatim>\<open>onstop\<close>\<close>

definition ok :: "nat \<Rightarrow> bool" where
  "ok status \<longleftrightarrow> 200 \<le> status \<and> status \<le> 299"

definition backend :: jsstring where
  "backend = js ''https://backend-agenticai-production.up.railway.app''"

datatype recording_state = Inactive | Recording

section \<open>The irrigation advice page (\<^verbatim>\<open>IrrigationAdvicePage\<close>)\<close>

text \<open>
  The recorder the page holds: its \<^verbatim>\<open>state\<close> attribute and the \<^verbatim>\<open>query\<close> that the
  \<^verbatim>\<open>onstop\<close> closure captured when \<^verbatim>\<open>startRecording\<close> ran.
\<close>

record recorder =
  rstate :: recording_state
  captured_query :: jsstring

text \<open>
  The hooks of the component (\<^verbatim>\<open>useState\<close>, \<^verbatim>\<open>useRef\<close>) and, in \<open>trace\<close>, what it has
  done to the outside so far, oldest first.
\<close>

record advice_state =
  query :: jsstring
  agentText :: jsstring
  loading :: bool
  recording :: bool
  weather :: "Weather option"
  soil :: "Soil option"
  mediaRecorderRef :: "recorder option"
  audioChunksRef :: "blob list"
  audioRef :: "jsstring option"
  trace :: "effect list"

definition emit :: "effect list \<Rightarrow> advice_state \<Rightarrow> advice_state" where
  "emit es s = s\<lparr>trace := trace s @ es\<rparr>"

text \<open>
  The optional chains \<^verbatim>\<open>data.weather.location?.name\<close>,
  \<^verbatim>\<open>data.weather.current?.condition?.text\<close> and \<^verbatim>\<open>data.weather.current?.temp_c\<close>.
\<close>

definition location_name :: "weather_json \<Rightarrow> jsstring option" where
  "location_name w = Option.bind (w_location w) l_name"

definition condition_text :: "weather_json \<Rightarrow> jsstring option" where
  "condition_text w = Option.bind (Option.bind (w_current w) cur_condition) c_text"

definition current_temp_c :: "weather_json \<Rightarrow> jsnum option" where
  "current_temp_c w = Option.bind (w_current w) cur_temp_c"

text \<open>The section \<^verbatim>\<open>Weather\<close> of \<^verbatim>\<open>fetchAgent\<close>.\<close>

definition weather_section :: "AgentResponse \<Rightarrow> advice_state \<Rightarrow> advice_state" where
  "weather_section data s =
     (case data_weather data of
        Some w \<Rightarrow>
          s\<lparr>weather := Some
            \<lparr>location = or_str (location_name w) (js ''Unknown''),
             condition = or_str (condition_text w) (js ''N/A''),
             temp_c = TNumber (or_number (current_temp_c w) (Finite 0))\<rparr>\<rparr>
      | None \<Rightarrow>
          (case data_message data of
             None \<Rightarrow> s
           | Some m \<Rightarrow>
               if truthy_str (Some m)
               then (case match_regex weather_regex m of
                       None \<Rightarrow> s
                     | Some weatherMatch \<Rightarrow>
                         s\<lparr>weather := Some
                           \<lparr>location = capture_group weatherMatch 1,
                            condition = capture_group weatherMatch 2,
                            temp_c = TString (capture_group weatherMatch 3)\<rparr>\<rparr>)
               else s))"

text \<open>The section \<^verbatim>\<open>Soil\<close> of \<^verbatim>\<open>fetchAgent\<close>.\<close>

definition soil_section :: "AgentResponse \<Rightarrow> advice_state \<Rightarrow> advice_state" where
  "soil_section data s =
     (case data_soil data of
        Some d \<Rightarrow>
          s\<lparr>soil := Some
            \<lparr>moisture = or_number (s_moisture d) (Finite 0),
             ph = Some (or_number (s_ph d) (Finite 7)),
             nitrogen = Some (or_str (s_nitrogen d) (js ''medium'')),
             phosphorus = Some (or_str (s_phosphorus d) (js ''medium'')),
             potassium = Some (or_str (s_potassium d) (js ''medium''))\<rparr>\<rparr>
      | None \<Rightarrow>
          (case data_message data of
             None \<Rightarrow> s
           | Some m \<Rightarrow>
               if truthy_str (Some m)
               then (case match_regex soil_regex m of
                       None \<Rightarrow> s
                     | Some soilMatch \<Rightarrow>
                         s\<lparr>soil := Some
                           \<lparr>moisture = Number (capture_group soilMatch 1),
                            ph = None, nitrogen = None, phosphorus = None,
                            potassium = None\<rparr>\<rparr>)
               else s))"

text \<open>The section \<^verbatim>\<open>Audio\<close> of \<^verbatim>\<open>fetchAgent\<close>.\<close>

definition audio_section :: "play_result \<Rightarrow> AgentResponse \<Rightarrow> advice_state \<Rightarrow> advice_state" where
  "audio_section play data s =
     (case data_audio_url data of
        None \<Rightarrow> s
      | Some u \<Rightarrow>
          if truthy_str (Some u)
          then (let s1 = emit [Play (backend @ u)] (s\<lparr>audioRef := Some (backend @ u)\<rparr>)
                in case play of
                     Resolved \<Rightarrow> s1
                   | Blocked \<Rightarrow> emit [ConsoleWarn PlaybackBlocked] s1)
          else s)"

text \<open>The \<^verbatim>\<open>catch\<close> block of \<^verbatim>\<open>fetchAgent\<close>.\<close>

definition fetch_failed :: "js_error \<Rightarrow> advice_state \<Rightarrow> advice_state" where
  "fetch_failed err s = emit [ConsoleError err, Alert (js ''Failed to fetch advice. Try again.'')] s"

definition fetchAgent :: "environment \<Rightarrow> FormData \<Rightarrow> advice_state \<Rightarrow> advice_state" where
  "fetchAgent env formData s =
     (let s1 = s\<lparr>loading := True, agentText := [], weather := None, soil := None\<rparr>;
          s2 = emit [Fetch formData] s1;
          s3 = (case fetch_result env of
                  Rejected \<Rightarrow> fetch_failed TransportError s2
                | Response status body \<Rightarrow>
                    if \<not> ok status then fetch_failed (ServerError status) s2
                    else (case body of
                            None \<Rightarrow> fetch_failed JsonError s2
                          | Some data \<Rightarrow>
                              audio_section (play_result env) data
                                (soil_section data
                                  (weather_section data
                                    (s2\<lparr>agentText := or_str (data_message data) []\<rparr>)))))
      in s3\<lparr>loading := False\<rparr>)"

text \<open>The handlers that \<^verbatim>\<open>startRecording\<close> gives the recorder.\<close>

definition ondataavailable :: "blob \<Rightarrow> advice_state \<Rightarrow> advice_state" where
  "ondataavailable d s =
     (if 0 < length d then s\<lparr>audioChunksRef := audioChunksRef s @ [d]\<rparr> else s)"

definition onstop :: "environment \<Rightarrow> jsstring \<Rightarrow> advice_state \<Rightarrow> advice_state" where
  "onstop env q s =
     (let audioBlob = concat (audioChunksRef s);
          formData = [(js ''audio'', File audioBlob (js ''audio/webm'') (js ''voice.webm''))];
          formData' = (if trim q \<noteq> [] then formData @ [(js ''question'', Text q)] else formData)
      in fetchAgent env formData' s)"

definition startRecording :: "mic_result \<Rightarrow> advice_state \<Rightarrow> advice_state" where
  "startRecording mic s =
     (case mic of
        MicDenied \<Rightarrow>
          emit [ConsoleError MicAccessError,
                Alert (js ''Microphone access is required to use voice features.'')] s
      | MicGranted \<Rightarrow>
          s\<lparr>audioChunksRef := [],
            mediaRecorderRef := Some \<lparr>rstate = Recording, captured_query = query s\<rparr>,
            recording := True\<rparr>)"

text \<open>
  \<^verbatim>\<open>MediaRecorder.stop()\<close> follows the MediaStream Recording specification: on an inactive
  recorder it does nothing; otherwise the recorder becomes inactive and a task delivers
  the data gathered so far (\<^verbatim>\<open>dataavailable\<close>) and then \<^verbatim>\<open>stop\<close>.  That task runs
  after the handler's \<^verbatim>\<open>setRecording(false)\<close>.
\<close>

definition stopRecording :: "environment \<Rightarrow> advice_state \<Rightarrow> advice_state" where
  "stopRecording env s =
     (case mediaRecorderRef s of
        None \<Rightarrow> s
      | Some r \<Rightarrow>
          (case rstate r of
             Inactive \<Rightarrow> s\<lparr>recording := False\<rparr>
           | Recording \<Rightarrow>
               onstop env (captured_query r)
                 (ondataavailable (final_chunk env)
                   (s\<lparr>mediaRecorderRef := Some (r\<lparr>rstate := Inactive\<rparr>),
                      recording := False\<rparr>))))"

definition handleSubmit :: "environment \<Rightarrow> advice_state \<Rightarrow> advice_state" where
  "handleSubmit env s =
     (if trim (query s) = []
      then emit [Alert (js ''Please enter your question or location'')] s
      else fetchAgent env [(js ''question'', Text (query s))] s)"

text \<open>No recording is active: the flag is down and the recorder held, if any, is inactive.\<close>

definition idle :: "advice_state \<Rightarrow> bool" where
  "idle s \<longleftrightarrow>
     \<not> recording s \<and>
     (case mediaRecorderRef s of None \<Rightarrow> True | Some r \<Rightarrow> rstate r = Inactive)"

text \<open>
  One recording session: a start with the microphone granted, the chunks the recorder
  delivers, in order, and the stop.
\<close>

definition capture :: "blob list \<Rightarrow> advice_state \<Rightarrow> advice_state" where
  "capture chunks s = foldl (\<lambda>s d. ondataavailable d s) (startRecording MicGranted s) chunks"

definition session :: "environment \<Rightarrow> blob list \<Rightarrow> advice_state \<Rightarrow> advice_state" where
  "session env chunks s = stopRecording env (capture chunks s)"

section \<open>The home page (\<^verbatim>\<open>Home\<close>)\<close>

text \<open>
  The hooks of the component; \<open>onended_h\<close> holds, for every audio element whose playback
  started, the reply that its \<^verbatim>\<open>onended\<close> closure captured.
\<close>

record home_state =
  agentText_h :: jsstring
  recording_h :: bool
  loading_h :: bool
  mediaRecorderRef_h :: "recording_state option"
  audioChunksRef_h :: "blob list"
  onended_h :: "AgentResponse list"
  trace_h :: "effect list"

definition emit_h :: "effect list \<Rightarrow> home_state \<Rightarrow> home_state" where
  "emit_h es s = s\<lparr>trace_h := trace_h s @ es\<rparr>"

text \<open>\<^verbatim>\<open>if (data.redirect && data.redirect_url) router.push(data.redirect_url)\<close>\<close>

definition redirect :: "AgentResponse \<Rightarrow> home_state \<Rightarrow> home_state" where
  "redirect data s =
     (if data_redirect data = Some True \<and> truthy_str (data_redirect_url data)
      then (case data_redirect_url data of None \<Rightarrow> s | Some u \<Rightarrow> emit_h [RouterPush u] s)
      else s)"

definition send_failed :: "js_error \<Rightarrow> home_state \<Rightarrow> home_state" where
  "send_failed err s =
     emit_h [ConsoleError err, Alert (js ''Failed to process audio. Please try again.'')] s"

definition sendToBackend :: "environment \<Rightarrow> home_state \<Rightarrow> home_state" where
  "sendToBackend env s =
     (let s1 = s\<lparr>loading_h := True\<rparr>;
          audioBlob = concat (audioChunksRef_h s1);
          formData = [(js ''audio'', File audioBlob (js ''audio/webm'') (js ''customer_audio.webm''))];
          s2 = emit_h [Fetch formData] s1;
          s3 = (case fetch_result env of
                  Rejected \<Rightarrow> send_failed TransportError s2
                | Response status body \<Rightarrow>
                    if \<not> ok status then send_failed (ServerError status) s2
                    else (case body of
                            None \<Rightarrow> send_failed JsonError s2
                          | Some data \<Rightarrow>
                              (let s4 = (emit_h [ConsoleLog data] s2)
                                          \<lparr>agentText_h := or_str (data_message data) []\<rparr>
                               in case data_audio_url data of
                                    None \<Rightarrow> redirect data s4
                                  | Some u \<Rightarrow>
                                      if truthy_str (Some u)
                                      then (let s5 = emit_h [Play (backend @ u)] s4
                                            in case play_result env of
                                                 Resolved \<Rightarrow>
                                                   s5\<lparr>onended_h := onended_h s5 @ [data]\<rparr>
                                               | Blocked \<Rightarrow>
                                                   redirect data
                                                     (emit_h [ConsoleWarn PlaybackBlocked] s5))
                                      else redirect data s4)))
      in s3\<lparr>loading_h := False\<rparr>)"

text \<open>The \<^verbatim>\<open>ended\<close> event of the \<open>i\<close>-th audio element whose playback started.\<close>

definition onended :: "nat \<Rightarrow> home_state \<Rightarrow> home_state" where
  "onended i s = (if i < length (onended_h s) then redirect (onended_h s ! i) s else s)"

definition ondataavailable_h :: "blob \<Rightarrow> home_state \<Rightarrow> home_state" where
  "ondataavailable_h d s =
     (if 0 < length d then s\<lparr>audioChunksRef_h := audioChunksRef_h s @ [d]\<rparr> else s)"

definition startRecording_h :: "mic_result \<Rightarrow> home_state \<Rightarrow> home_state" where
  "startRecording_h mic s =
     (case mic of
        MicDenied \<Rightarrow>
          emit_h [ConsoleError MicAccessError,
                  Alert (js ''Microphone access is required to use voice features.'')] s
      | MicGranted \<Rightarrow>
          s\<lparr>audioChunksRef_h := [], mediaRecorderRef_h := Some Recording, recording_h := True\<rparr>)"

definition stopRecording_h :: "environment \<Rightarrow> home_state \<Rightarrow> home_state" where
  "stopRecording_h env s =
     (case mediaRecorderRef_h s of
        None \<Rightarrow> s
      | Some Inactive \<Rightarrow> s\<lparr>recording_h := False\<rparr>
      | Some Recording \<Rightarrow>
          sendToBackend env
            (ondataavailable_h (final_chunk env)
              (s\<lparr>mediaRecorderRef_h := Some Inactive, recording_h := False\<rparr>)))"

definition idle_h :: "home_state \<Rightarrow> bool" where
  "idle_h s \<longleftrightarrow>
     \<not> recording_h s \<and>
     (case mediaRecorderRef_h s of None \<Rightarrow> True | Some st \<Rightarrow> st = Inactive)"

definition capture_h :: "blob list \<Rightarrow> home_state \<Rightarrow> home_state" where
  "capture_h chunks s =
     foldl (\<lambda>s d. ondataavailable_h d s) (startRecording_h MicGranted s) chunks"

definition session_h :: "environment \<Rightarrow> blob list \<Rightarrow> home_state \<Rightarrow> home_state" where
  "session_h env chunks s = stopRecording_h env (capture_h chunks s)"

section \<open>Concrete inputs\<close>

definition initial :: advice_state where
  "initial =
     \<lparr>query = [], agentText = [], loading = False, recording = False, weather = None,
      soil = None, mediaRecorderRef = None, audioChunksRef = [], audioRef = None, trace = []\<rparr>"

definition initial_h :: home_state where
  "initial_h =
     \<lparr>agentText_h = [], recording_h = False, loading_h = False, mediaRecorderRef_h = None,
      audioChunksRef_h = [], onended_h = [], trace_h = []\<rparr>"

text \<open>A reply with no key at all, and the outside answering a submission with a reply.\<close>

definition no_keys :: AgentResponse where
  "no_keys =
     \<lparr>data_message = None, data_audio_url = None, data_weather = None, data_soil = None,
      data_redirect = None, data_redirect_url = None\<rparr>"

definition answers :: "nat \<Rightarrow> AgentResponse \<Rightarrow> play_result \<Rightarrow> environment" where
  "answers status data play =
     \<lparr>fetch_result = Response status (Some data), play_result = play, final_chunk = []\<rparr>"

text \<open>\<^verbatim>\<open>"Weather in Pune is Clear with temperature 30.5\<degree>C"\<close>\<close>

definition pune_message :: jsstring where
  "pune_message = js ''Weather in Pune is Clear with temperature 30.5'' @ [0xB0, 0x43]"

definition field_message :: jsstring where
  "field_message = js ''Field has soil moisture 42%''"

definition lahore_weather :: weather_json where
  "lahore_weather =
     \<lparr>w_location = Some \<lparr>l_name = Some (js ''Lahore'')\<rparr>,
      w_current = Some \<lparr>cur_condition = Some \<lparr>c_text = Some (js ''Sunny'')\<rparr>,
                        cur_temp_c = Some (Finite 35)\<rparr>\<rparr>"

definition wet_soil :: soil_json where
  "wet_soil =
     \<lparr>s_moisture = Some (Finite 55), s_ph = Some (Finite 6), s_nitrogen = Some (js ''high''),
      s_phosphorus = Some (js ''low''), s_potassium = None\<rparr>"

text \<open>A reply whose message matches both patterns and that carries both objects as well.\<close>

definition both_reply :: AgentResponse where
  "both_reply =
     no_keys\<lparr>data_message := Some (pune_message @ js '', soil moisture 42%''),
             data_weather := Some lahore_weather, data_soil := Some wet_soil\<rparr>"

text \<open>A \<^verbatim>\<open>weather\<close> object whose \<^verbatim>\<open>location.name\<close> is the empty string.\<close>

definition empty_name_weather :: weather_json where
  "empty_name_weather =
     \<lparr>w_location = Some \<lparr>l_name = Some []\<rparr>,
      w_current = Some \<lparr>cur_condition = Some \<lparr>c_text = Some (js ''Clear'')\<rparr>,
                        cur_temp_c = Some (Finite 30)\<rparr>\<rparr>"

text \<open>A \<^verbatim>\<open>weather\<close> object with a condition only.\<close>

definition rain_weather :: weather_json where
  "rain_weather =
     \<lparr>w_location = None,
      w_current = Some \<lparr>cur_condition = Some \<lparr>c_text = Some (js ''Rain'')\<rparr>,
                        cur_temp_c = None\<rparr>\<rparr>"

text \<open>The page showing an earlier reply, and a submission that the server answers with 500.\<close>

definition shown :: advice_state where
  "shown =
     initial\<lparr>agentText := js ''Irrigate today'',
             weather := Some \<lparr>location = js ''Pune'', condition = js ''Clear'',
                              temp_c = TNumber (Finite 30)\<rparr>,
             soil := Some \<lparr>moisture = Finite 42, ph = None, nitrogen = None,
                           phosphorus = None, potassium = None\<rparr>\<rparr>"

definition server_error :: environment where
  "server_error = \<lparr>fetch_result = Response 500 None, play_result = Resolved, final_chunk = []\<rparr>"

text \<open>A reply with audio and a redirect.\<close>

definition redirect_reply :: AgentResponse where
  "redirect_reply =
     no_keys\<lparr>data_message := Some (js ''Opening irrigation advice''),
             data_audio_url := Some (js ''/audio/reply.mp3''),
             data_redirect := Some True,
             data_redirect_url := Some (js ''/irrigation'')\<rparr>"

text \<open>
  A \<^verbatim>\<open>soil\<close> object with \<^verbatim>\<open>ph\<close> 0 and an empty \<^verbatim>\<open>nitrogen\<close>, and a reply that carries
  it and the weather with the empty name, under a message that matches both patterns.
\<close>

definition falsy_soil :: soil_json where
  "falsy_soil =
     \<lparr>s_moisture = Some (Finite 55), s_ph = Some (Finite 0), s_nitrogen = Some [],
      s_phosphorus = Some (js ''low''), s_potassium = None\<rparr>"

definition falsy_reply :: AgentResponse where
  "falsy_reply =
     no_keys\<lparr>data_message := Some (pune_message @ js '', soil moisture 42%''),
             data_weather := Some empty_name_weather, data_soil := Some falsy_soil\<rparr>"

section \<open>The successful path of \<^verbatim>\<open>fetchAgent\<close>\<close>

lemma js_Nil: "js [] = []"
  by (simp add: js_def)

lemma js_Cons: "js (c # cs) = of_char c # js cs"
  by (simp add: js_def)

lemma fetchAgent_ok:
  assumes "fetch_result env = Response status (Some data)" and "ok status"
  shows "fetchAgent env fd s =
     (audio_section (play_result env) data
        (soil_section data
          (weather_section data
            (s\<lparr>loading := True, weather := None, soil := None,
               trace := trace s @ [Fetch fd], agentText := or_str (data_message data) []\<rparr>))))
       \<lparr>loading := False\<rparr>"
  using assms by (simp add: fetchAgent_def emit_def Let_def)

lemma audio_section_frame:
  "weather (audio_section p data s) = weather s"
  "soil (audio_section p data s) = soil s"
  "agentText (audio_section p data s) = agentText s"
  by (simp_all add: audio_section_def emit_def Let_def split: option.splits play_result.splits)

lemma soil_section_frame:
  "weather (soil_section data s) = weather s"
  "agentText (soil_section data s) = agentText s"
  "trace (soil_section data s) = trace s"
  by (simp_all add: soil_section_def split: option.splits)

lemma weather_section_frame:
  "soil (weather_section data s) = soil s"
  "agentText (weather_section data s) = agentText s"
  "trace (weather_section data s) = trace s"
  by (simp_all add: weather_section_def split: option.splits)

lemma weather_fetchAgent:
  assumes "fetch_result env = Response status (Some data)" and "ok status"
  shows "weather (fetchAgent env fd s) = weather (weather_section data (s\<lparr>weather := None\<rparr>))"
  using assms
  by (simp add: fetchAgent_ok audio_section_frame soil_section_frame)
     (simp add: weather_section_def split: option.splits)

lemma soil_fetchAgent:
  assumes "fetch_result env = Response status (Some data)" and "ok status"
  shows "soil (fetchAgent env fd s) = soil (soil_section data (s\<lparr>soil := None\<rparr>))"
  using assms
  by (simp add: fetchAgent_ok audio_section_frame)
     (simp add: soil_section_def weather_section_frame split: option.splits)

section \<open>The patterns on the concrete messages\<close>

lemma pune_match:
  "match_regex weather_regex pune_message = Some [js ''Pune'', js ''Clear'', js ''30.5'']"
  by (simp add: weather_regex_def pune_message_def js_Nil js_Cons)

lemma both_match_weather:
  "match_regex weather_regex (pune_message @ js '', soil moisture 42%'') =
     Some [js ''Pune'', js ''Clear'', js ''30.5'']"
  by (simp add: weather_regex_def pune_message_def js_Nil js_Cons)

lemma both_match_soil:
  "match_regex soil_regex (pune_message @ js '', soil moisture 42%'') = Some [js ''42'']"
  by (simp add: soil_regex_def pune_message_def js_Nil js_Cons)

lemma field_match:
  "match_regex soil_regex field_message = Some [js ''42'']"
  by (simp add: soil_regex_def field_message_def js_Nil js_Cons)

lemma Number_42: "Number (js ''42'') = Finite 42"
  by (simp add: Number_def decimal_def digit_value_def to_double_def js_Nil js_Cons)

section \<open>What the matcher accepts\<close>

lemma strip_prefix_Some: "strip_prefix l s = Some r \<longleftrightarrow> s = l @ r"
  by (induction l s rule: strip_prefix.induct) auto

lemma strip_prefix_append: "strip_prefix l (l @ r) = Some r"
  by (simp add: strip_prefix_Some)

lemma repeat_plus_sound:
  "repeat GreedyPlus cl k acc s = Some r \<Longrightarrow>
   \<exists>taken rest. s = taken @ rest \<and> list_all (in_class cl) taken \<and> acc @ taken \<noteq> [] \<and>
     k (acc @ taken) rest = Some r"
proof (induction s arbitrary: acc)
  case Nil
  then show ?case
    by (auto split: if_splits)
next
  case (Cons c cs)
  show ?case
  proof (cases "in_class cl c \<and> repeat GreedyPlus cl k (acc @ [c]) cs \<noteq> None")
    case True
    with Cons.prems have "repeat GreedyPlus cl k (acc @ [c]) cs = Some r"
      by auto
    from Cons.IH [OF this] obtain taken rest where
      t: "cs = taken @ rest" "list_all (in_class cl) taken" "k ((acc @ [c]) @ taken) rest = Some r"
      by blast
    from t True have "c # cs = (c # taken) @ rest \<and> list_all (in_class cl) (c # taken) \<and>
        acc @ c # taken \<noteq> [] \<and> k (acc @ c # taken) rest = Some r"
      by simp
    then show ?thesis
      by blast
  next
    case False
    with Cons.prems have "acc \<noteq> [] \<and> k acc (c # cs) = Some r"
      by (auto split: if_splits option.splits)
    then have "c # cs = [] @ (c # cs) \<and> list_all (in_class cl) [] \<and> acc @ [] \<noteq> [] \<and>
        k (acc @ []) (c # cs) = Some r"
      by simp
    then show ?thesis
      by blast
  qed
qed

lemma repeat_plus_complete:
  "list_all (in_class cl) taken \<Longrightarrow> acc @ taken \<noteq> [] \<Longrightarrow> k (acc @ taken) rest \<noteq> None \<Longrightarrow>
   repeat GreedyPlus cl k acc (taken @ rest) \<noteq> None"
proof (induction taken arbitrary: acc)
  case Nil
  then show ?case
    by (cases rest) (auto split: option.splits)
next
  case (Cons c taken)
  from Cons.prems have "repeat GreedyPlus cl k (acc @ [c]) (taken @ rest) \<noteq> None"
    by (intro Cons.IH) auto
  with Cons.prems show ?case
    by auto
qed

lemma match_regex_sound:
  "match_regex re m = Some caps \<Longrightarrow> \<exists>pre suf. m = pre @ suf \<and> match_here re suf = Some caps"
proof (induction m)
  case Nil
  then show ?case by simp
next
  case (Cons c cs)
  show ?case
  proof (cases "match_here re (c # cs)")
    case None
    with Cons.prems have "match_regex re cs = Some caps"
      by simp
    from Cons.IH [OF this] obtain pre suf where "cs = pre @ suf" "match_here re suf = Some caps"
      by blast
    then have "c # cs = (c # pre) @ suf \<and> match_here re suf = Some caps"
      by simp
    then show ?thesis by blast
  next
    case (Some a)
    with Cons.prems have "c # cs = [] @ (c # cs) \<and> match_here re (c # cs) = Some caps"
      by simp
    then show ?thesis by blast
  qed
qed

lemma match_regex_complete:
  "match_here re suf \<noteq> None \<Longrightarrow> match_regex re (pre @ suf) \<noteq> None"
proof (induction pre)
  case Nil
  then show ?case
    by (cases suf) auto
next
  case (Cons c pre)
  then show ?case
    by (auto split: option.splits)
qed

lemma match_here_soil_sound:
  assumes "match_here soil_regex s = Some caps"
  shows "\<exists>ds post. s = js ''soil moisture '' @ ds @ js ''%'' @ post \<and> caps = [ds] \<and> ds \<noteq> [] \<and>
      list_all (in_class Digit) ds"
proof -
  from assms obtain s' where s': "s = js ''soil moisture '' @ s'"
    and r: "repeat GreedyPlus Digit
        (\<lambda>cap s''. map_option ((#) cap) (match_here [Lit (js ''%'')] s'')) [] s' = Some caps"
    by (auto simp: soil_regex_def strip_prefix_Some split: option.splits)
  from repeat_plus_sound [OF r] obtain ds rest where
    d: "s' = ds @ rest" "list_all (in_class Digit) ds" "ds \<noteq> []"
      "map_option ((#) ds) (match_here [Lit (js ''%'')] rest) = Some caps"
    by auto
  from d(4) obtain post where "rest = js ''%'' @ post" "caps = [ds]"
    by (auto simp: strip_prefix_Some split: option.splits)
  with s' d show ?thesis
    by auto
qed

lemma match_here_soil_complete:
  assumes "ds \<noteq> []" and "list_all (in_class Digit) ds"
  shows "match_here soil_regex (js ''soil moisture '' @ ds @ js ''%'' @ post) \<noteq> None"
proof -
  have "strip_prefix (js ''soil moisture '') (js ''soil moisture '' @ ds @ js ''%'' @ post)
      = Some (ds @ js ''%'' @ post)"
    by (rule strip_prefix_append)
  moreover have "repeat GreedyPlus Digit
        (\<lambda>cap s''. map_option ((#) cap) (match_here [Lit (js ''%'')] s'')) [] (ds @ js ''%'' @ post)
        \<noteq> None"
    using assms by (intro repeat_plus_complete) (simp_all add: strip_prefix_append)
  ultimately show ?thesis
    by (simp add: soil_regex_def)
qed

lemma Number_exact: "decimal ds < 2 ^ 53 \<Longrightarrow> Number ds = Finite (real (decimal ds))"
  by (simp add: Number_def to_double_def)

lemma soil_pattern_matches:
  assumes "ds \<noteq> []" and "list_all (in_class Digit) ds"
  shows "match_regex soil_regex (pre @ js ''soil moisture '' @ ds @ js ''%'' @ post) \<noteq> None"
  using match_here_soil_complete [OF assms] by (rule match_regex_complete)

lemma soil_regex_empty: "match_regex soil_regex [] = None"
  by (simp add: soil_regex_def js_Cons)

lemma or_str_cases:
  "or_str x d = (case x of None \<Rightarrow> d | Some v \<Rightarrow> if v = [] then d else v)"
  by (simp add: or_str_def split: option.splits)

lemma or_number_cases:
  "or_number x (Finite 0) = (case x of None \<Rightarrow> Finite 0 | Some v \<Rightarrow> v)"
  by (simp add: or_number_def split: option.splits)

lemma or_number_default:
  "or_number x d = (case x of None \<Rightarrow> d | Some v \<Rightarrow> if v = Finite 0 then d else v)"
  by (simp add: or_number_def split: option.splits)

section \<open>Structured data before text extraction\<close>

text \<open>
  C1, as the claim states it, fails: with both objects present and a message that matches
  both patterns, a \<^verbatim>\<open>location.name\<close> that is the empty string, a \<^verbatim>\<open>ph\<close> of 0 and an
  empty \<^verbatim>\<open>nitrogen\<close> are not used verbatim; \<^verbatim>\<open>||\<close> replaces them by \<^verbatim>\<open>"Unknown"\<close>, 7 and
  \<^verbatim>\<open>"medium"\<close>.
\<close>

theorem structured_verbatim_counterexample:
  "match_regex weather_regex (the (data_message falsy_reply)) =
     Some [js ''Pune'', js ''Clear'', js ''30.5''] \<and>
   match_regex soil_regex (the (data_message falsy_reply)) = Some [js ''42''] \<and>
   location_name (the (data_weather falsy_reply)) = Some [] \<and>
   s_ph (the (data_soil falsy_reply)) = Some (Finite 0) \<and>
   s_nitrogen (the (data_soil falsy_reply)) = Some [] \<and>
   weather (fetchAgent (answers 200 falsy_reply Resolved) [] initial) =
     Some \<lparr>location = js ''Unknown'', condition = js ''Clear'', temp_c = TNumber (Finite 30)\<rparr> \<and>
   soil (fetchAgent (answers 200 falsy_reply Resolved) [] initial) =
     Some \<lparr>moisture = Finite 55, ph = Some (Finite 7), nitrogen = Some (js ''medium''),
           phosphorus = Some (js ''low''), potassium = Some (js ''medium'')\<rparr> \<and>
   js ''Unknown'' \<noteq> [] \<and> Finite 7 \<noteq> Finite 0 \<and> js ''medium'' \<noteq> []"
proof -
  have f: "fetch_result (answers 200 falsy_reply Resolved) = Response 200 (Some falsy_reply)"
    by (simp add: answers_def)
  have k: "ok 200"
    by (simp add: ok_def)
  have w: "data_weather falsy_reply = Some empty_name_weather"
    and d: "data_soil falsy_reply = Some falsy_soil"
    and m: "the (data_message falsy_reply) = pune_message @ js '', soil moisture 42%''"
    by (simp_all add: falsy_reply_def no_keys_def)
  have "weather (fetchAgent (answers 200 falsy_reply Resolved) [] initial) =
     Some \<lparr>location = js ''Unknown'', condition = js ''Clear'', temp_c = TNumber (Finite 30)\<rparr>"
    unfolding weather_fetchAgent [OF f k]
    by (simp add: weather_section_def w empty_name_weather_def location_name_def
        condition_text_def current_temp_c_def or_str_def or_number_def js_Nil js_Cons)
  moreover have "soil (fetchAgent (answers 200 falsy_reply Resolved) [] initial) =
     Some \<lparr>moisture = Finite 55, ph = Some (Finite 7), nitrogen = Some (js ''medium''),
           phosphorus = Some (js ''low''), potassium = Some (js ''medium'')\<rparr>"
    unfolding soil_fetchAgent [OF f k]
    by (simp add: soil_section_def d falsy_soil_def or_str_def or_number_def js_Nil js_Cons)
  moreover have "location_name (the (data_weather falsy_reply)) = Some []"
    and "s_ph (the (data_soil falsy_reply)) = Some (Finite 0)"
    and "s_nitrogen (the (data_soil falsy_reply)) = Some []"
    by (simp_all add: w d empty_name_weather_def falsy_soil_def location_name_def)
  ultimately show ?thesis
    unfolding m both_match_weather both_match_soil
    by (simp add: js_Cons)
qed

text \<open>
  C1, amended.  When the reply carries a \<^verbatim>\<open>weather\<close> object, the weather shown is built
  from that object alone: each subfield is the object's value verbatim when it is present
  and truthy (a non-empty string, a number other than 0) and the subfield's default when
  it is absent or falsy; likewise for \<^verbatim>\<open>soil\<close>.  Whatever the message says, also when
  it matches the text pattern, the result is the same: the text is never consulted, never
  overrides the object, and no field is taken from both sources.
\<close>

theorem structured_data_wins:
  assumes "fetch_result env = Response status (Some data)" and "ok status"
  shows "(data_weather data = Some w \<longrightarrow>
            weather (fetchAgent env fd s) =
              Some \<lparr>location = (case location_name w of
                                   None \<Rightarrow> js ''Unknown''
                                 | Some v \<Rightarrow> if v = [] then js ''Unknown'' else v),
                    condition = (case condition_text w of
                                   None \<Rightarrow> js ''N/A''
                                 | Some v \<Rightarrow> if v = [] then js ''N/A'' else v),
                    temp_c = (case current_temp_c w of
                                None \<Rightarrow> TNumber (Finite 0)
                              | Some t \<Rightarrow> TNumber t)\<rparr> \<and>
            weather (fetchAgent (env\<lparr>fetch_result :=
                Response status (Some (data\<lparr>data_message := m\<rparr>))\<rparr>) fd s) =
              weather (fetchAgent env fd s)) \<and>
         (data_soil data = Some d \<longrightarrow>
            soil (fetchAgent env fd s) =
              Some \<lparr>moisture = (case s_moisture d of None \<Rightarrow> Finite 0 | Some x \<Rightarrow> x),
                    ph = Some (case s_ph d of
                                 None \<Rightarrow> Finite 7
                               | Some x \<Rightarrow> if x = Finite 0 then Finite 7 else x),
                    nitrogen = Some (case s_nitrogen d of
                                       None \<Rightarrow> js ''medium''
                                     | Some v \<Rightarrow> if v = [] then js ''medium'' else v),
                    phosphorus = Some (case s_phosphorus d of
                                         None \<Rightarrow> js ''medium''
                                       | Some v \<Rightarrow> if v = [] then js ''medium'' else v),
                    potassium = Some (case s_potassium d of
                                        None \<Rightarrow> js ''medium''
                                      | Some v \<Rightarrow> if v = [] then js ''medium'' else v)\<rparr> \<and>
            soil (fetchAgent (env\<lparr>fetch_result :=
                Response status (Some (data\<lparr>data_message := m\<rparr>))\<rparr>) fd s) =
              soil (fetchAgent env fd s))"
proof -
  let ?env' = "env\<lparr>fetch_result := Response status (Some (data\<lparr>data_message := m\<rparr>))\<rparr>"
  have e': "fetch_result ?env' = Response status (Some (data\<lparr>data_message := m\<rparr>))"
    by simp
  have w: "weather (fetchAgent env fd s) = weather (weather_section data (s\<lparr>weather := None\<rparr>))"
    and w': "weather (fetchAgent ?env' fd s) =
      weather (weather_section (data\<lparr>data_message := m\<rparr>) (s\<lparr>weather := None\<rparr>))"
    using weather_fetchAgent [OF assms] weather_fetchAgent [OF e' assms(2)] by simp_all
  have d: "soil (fetchAgent env fd s) = soil (soil_section data (s\<lparr>soil := None\<rparr>))"
    and d': "soil (fetchAgent ?env' fd s) =
      soil (soil_section (data\<lparr>data_message := m\<rparr>) (s\<lparr>soil := None\<rparr>))"
    using soil_fetchAgent [OF assms] soil_fetchAgent [OF e' assms(2)] by simp_all
  have n: "or_number (s_moisture d) (Finite 0) =
      (case s_moisture d of None \<Rightarrow> Finite 0 | Some x \<Rightarrow> x)"
    and t: "or_number (current_temp_c w) (Finite 0) =
      (case current_temp_c w of None \<Rightarrow> Finite 0 | Some x \<Rightarrow> x)"
    by (rule or_number_cases)+
  show ?thesis
    unfolding w w' d d'
    by (simp add: weather_section_def soil_section_def or_str_cases n t
        or_number_default [of _ "Finite 7"] split: option.splits)
qed

theorem structured_data_wins_witness:
  "match_regex weather_regex (the (data_message falsy_reply)) =
     Some [js ''Pune'', js ''Clear'', js ''30.5''] \<and>
   match_regex soil_regex (the (data_message falsy_reply)) = Some [js ''42''] \<and>
   weather (fetchAgent (answers 200 falsy_reply Resolved) [] initial) =
     Some \<lparr>location = js ''Unknown'', condition = js ''Clear'', temp_c = TNumber (Finite 30)\<rparr> \<and>
   soil (fetchAgent (answers 200 falsy_reply Resolved) [] initial) =
     Some \<lparr>moisture = Finite 55, ph = Some (Finite 7), nitrogen = Some (js ''medium''),
           phosphorus = Some (js ''low''), potassium = Some (js ''medium'')\<rparr> \<and>
   weather (fetchAgent (answers 200 both_reply Resolved) [] initial) =
     Some \<lparr>location = js ''Lahore'', condition = js ''Sunny'', temp_c = TNumber (Finite 35)\<rparr> \<and>
   soil (fetchAgent (answers 200 both_reply Resolved) [] initial) =
     Some \<lparr>moisture = Finite 55, ph = Some (Finite 6), nitrogen = Some (js ''high''),
           phosphorus = Some (js ''low''), potassium = Some (js ''medium'')\<rparr>"
proof -
  have f: "fetch_result (answers 200 falsy_reply Resolved) = Response 200 (Some falsy_reply)"
    and f': "fetch_result (answers 200 both_reply Resolved) = Response 200 (Some both_reply)"
    by (simp_all add: answers_def)
  have k: "ok 200"
    by (simp add: ok_def)
  have w: "data_weather falsy_reply = Some empty_name_weather"
    and d: "data_soil falsy_reply = Some falsy_soil"
    and m: "the (data_message falsy_reply) = pune_message @ js '', soil moisture 42%''"
    and w': "data_weather both_reply = Some lahore_weather"
    and d': "data_soil both_reply = Some wet_soil"
    by (simp_all add: falsy_reply_def both_reply_def no_keys_def)
  from structured_data_wins [OF f k, of empty_name_weather "[]" initial None falsy_soil]
    structured_data_wins [OF f' k, of lahore_weather "[]" initial None wet_soil] w d w' d'
  show ?thesis
    unfolding m both_match_weather both_match_soil
    by (simp add: empty_name_weather_def falsy_soil_def lahore_weather_def wet_soil_def
        location_name_def condition_text_def current_temp_c_def js_Nil js_Cons)
qed

section \<open>Defaults of the structured weather\<close>

text \<open>
  C6, as the claim states it, fails: a \<^verbatim>\<open>location.name\<close> that is present but is the empty
  string is replaced by \<^verbatim>\<open>"Unknown"\<close>, because \<^verbatim>\<open>||\<close> tests truthiness and not presence.
\<close>

theorem weather_present_counterexample:
  "location_name empty_name_weather = Some [] \<and>
   weather (fetchAgent (answers 200 (no_keys\<lparr>data_weather := Some empty_name_weather\<rparr>)
      Resolved) [] initial) =
     Some \<lparr>location = js ''Unknown'', condition = js ''Clear'', temp_c = TNumber (Finite 30)\<rparr> \<and>
   js ''Unknown'' \<noteq> []"
proof -
  have "fetch_result (answers 200 (no_keys\<lparr>data_weather := Some empty_name_weather\<rparr>) Resolved)
      = Response 200 (Some (no_keys\<lparr>data_weather := Some empty_name_weather\<rparr>))"
    by (simp add: answers_def)
  moreover have "ok 200"
    by (simp add: ok_def)
  ultimately show ?thesis
    by (simp add: weather_fetchAgent weather_section_def empty_name_weather_def
        location_name_def condition_text_def current_temp_c_def or_str_def or_number_def
        js_Nil js_Cons)
qed

text \<open>
  C6, amended.  With a \<^verbatim>\<open>weather\<close> object present, location and condition are the value
  provided when it is present and not empty, and the default (\<^verbatim>\<open>"Unknown"\<close>, \<^verbatim>\<open>"N/A"\<close>)
  when it is absent or empty; the temperature is the value provided when present and \<open>0\<close>
  when absent.  Each subfield is defaulted on its own.
\<close>

theorem weather_present_fields:
  assumes "fetch_result env = Response status (Some data)" and "ok status"
    and "data_weather data = Some w"
  shows "weather (fetchAgent env fd s) =
     Some \<lparr>location = (case location_name w of
                          None \<Rightarrow> js ''Unknown''
                        | Some v \<Rightarrow> if v = [] then js ''Unknown'' else v),
           condition = (case condition_text w of
                          None \<Rightarrow> js ''N/A''
                        | Some v \<Rightarrow> if v = [] then js ''N/A'' else v),
           temp_c = (case current_temp_c w of
                       None \<Rightarrow> TNumber (Finite 0)
                     | Some t \<Rightarrow> TNumber t)\<rparr>"
  using assms(3)
  by (simp add: weather_fetchAgent [OF assms(1,2)] weather_section_def or_str_cases
      or_number_cases split: option.splits)

theorem weather_present_fields_witness:
  "weather (fetchAgent (answers 200 (no_keys\<lparr>data_weather := Some rain_weather\<rparr>) Resolved)
      [] initial) =
     Some \<lparr>location = js ''Unknown'', condition = js ''Rain'', temp_c = TNumber (Finite 0)\<rparr>"
proof -
  have f: "fetch_result (answers 200 (no_keys\<lparr>data_weather := Some rain_weather\<rparr>) Resolved)
      = Response 200 (Some (no_keys\<lparr>data_weather := Some rain_weather\<rparr>))"
    by (simp add: answers_def)
  have k: "ok 200"
    by (simp add: ok_def)
  have w: "data_weather (no_keys\<lparr>data_weather := Some rain_weather\<rparr>) = Some rain_weather"
    by simp
  show ?thesis
    using weather_present_fields [OF f k w, of "[]" initial]
    by (simp add: rain_weather_def location_name_def condition_text_def current_temp_c_def
        js_Nil js_Cons)
qed

section \<open>Weather from the text of the message\<close>

text \<open>
  C7.  With no \<^verbatim>\<open>weather\<close> object and the message
  \<^verbatim>\<open>"Weather in Pune is Clear with temperature 30.5\<degree>C"\<close>, the weather shown has location
  \<^verbatim>\<open>"Pune"\<close>, condition \<^verbatim>\<open>"Clear"\<close> and, as temperature, the captured text \<^verbatim>\<open>"30.5"\<close>
  itself, not converted to a number.
\<close>

theorem pune_weather_from_text:
  assumes "fetch_result env = Response status (Some data)" and "ok status"
    and "data_weather data = None" and "data_message data = Some pune_message"
  shows "weather (fetchAgent env fd s) =
     Some \<lparr>location = js ''Pune'', condition = js ''Clear'', temp_c = TString (js ''30.5'')\<rparr>"
proof -
  have "pune_message \<noteq> []"
    by (simp add: pune_message_def js_Cons)
  with assms(3,4) show ?thesis
    by (simp add: weather_fetchAgent [OF assms(1,2)] weather_section_def pune_match capture_group_def)
qed

theorem pune_weather_from_text_witness:
  "weather (fetchAgent (answers 200 (no_keys\<lparr>data_message := Some pune_message\<rparr>) Resolved)
      [] initial) =
     Some \<lparr>location = js ''Pune'', condition = js ''Clear'', temp_c = TString (js ''30.5'')\<rparr>"
proof -
  have f: "fetch_result (answers 200 (no_keys\<lparr>data_message := Some pune_message\<rparr>) Resolved)
      = Response 200 (Some (no_keys\<lparr>data_message := Some pune_message\<rparr>))"
    by (simp add: answers_def)
  have k: "ok 200"
    by (simp add: ok_def)
  have w: "data_weather (no_keys\<lparr>data_message := Some pune_message\<rparr>) = None"
    by (simp add: no_keys_def)
  have m: "data_message (no_keys\<lparr>data_message := Some pune_message\<rparr>) = Some pune_message"
    by simp
  show ?thesis
    using pune_weather_from_text [OF f k w m] .
qed

section \<open>Soil from the text of the message\<close>

text \<open>
  C2, as the claim states it, fails: for the message \<^verbatim>\<open>"Field has soil moisture 42%"\<close> and
  no \<^verbatim>\<open>soil\<close> object the soil shown has moisture \<open>42\<close> and nothing else; its \<^verbatim>\<open>ph\<close> is
  absent, not \<open>7\<close>.
\<close>

theorem soil_from_text_counterexample:
  "soil (fetchAgent (answers 200 (no_keys\<lparr>data_message := Some field_message\<rparr>) Resolved)
      [] initial) =
     Some \<lparr>moisture = Finite 42, ph = None, nitrogen = None, phosphorus = None,
           potassium = None\<rparr> \<and>
   ph (the (soil (fetchAgent (answers 200 (no_keys\<lparr>data_message := Some field_message\<rparr>)
      Resolved) [] initial))) \<noteq> Some (Finite 7)"
proof -
  have f: "fetch_result (answers 200 (no_keys\<lparr>data_message := Some field_message\<rparr>) Resolved)
      = Response 200 (Some (no_keys\<lparr>data_message := Some field_message\<rparr>))"
    by (simp add: answers_def)
  have k: "ok 200"
    by (simp add: ok_def)
  have n: "field_message \<noteq> []"
    by (simp add: field_message_def js_Cons)
  have d: "data_soil (no_keys\<lparr>data_message := Some field_message\<rparr>) = None"
    by (simp add: no_keys_def)
  have "soil (fetchAgent (answers 200 (no_keys\<lparr>data_message := Some field_message\<rparr>)
      Resolved) [] initial) =
     Some \<lparr>moisture = Finite 42, ph = None, nitrogen = None, phosphorus = None,
           potassium = None\<rparr>"
    unfolding soil_fetchAgent [OF f k]
    using n d by (simp add: soil_section_def field_match capture_group_def Number_42)
  then show ?thesis
    by simp
qed

text \<open>
  C2, amended.  With no \<^verbatim>\<open>soil\<close> object and a message that the pattern
  \<^verbatim>\<open>soil moisture <digits>%\<close> matches, the capture is a non-empty run of digits standing
  in the message between \<^verbatim>\<open>"soil moisture "\<close> and \<^verbatim>\<open>"%"\<close>, and the soil shown has the
  number of those digits as moisture and no other field: \<^verbatim>\<open>ph\<close>, \<^verbatim>\<open>nitrogen\<close>,
  \<^verbatim>\<open>phosphorus\<close> and \<^verbatim>\<open>potassium\<close> are absent.
\<close>

theorem soil_from_text:
  assumes "fetch_result env = Response status (Some data)" and "ok status"
    and "data_soil data = None" and "data_message data = Some m"
    and "match_regex soil_regex m = Some soilMatch"
  shows "\<exists>ds pre post.
     soilMatch = [ds] \<and> ds \<noteq> [] \<and> list_all (in_class Digit) ds \<and>
     m = pre @ js ''soil moisture '' @ ds @ js ''%'' @ post \<and>
     soil (fetchAgent env fd s) =
       Some \<lparr>moisture = Number ds, ph = None, nitrogen = None, phosphorus = None,
             potassium = None\<rparr>"
proof -
  have "m \<noteq> []"
    using assms(5) soil_regex_empty by auto
  with assms(3-5) have r: "soil (fetchAgent env fd s) =
     Some \<lparr>moisture = Number (capture_group soilMatch 1), ph = None, nitrogen = None,
           phosphorus = None, potassium = None\<rparr>"
    by (simp add: soil_fetchAgent [OF assms(1,2)] soil_section_def)
  from match_regex_sound [OF assms(5)] obtain pre suf where
    p: "m = pre @ suf" "match_here soil_regex suf = Some soilMatch"
    by blast
  from match_here_soil_sound [OF p(2)] obtain ds post where
    d: "suf = js ''soil moisture '' @ ds @ js ''%'' @ post" "soilMatch = [ds]" "ds \<noteq> []"
      "list_all (in_class Digit) ds"
    by blast
  from r d(2) have "soil (fetchAgent env fd s) =
     Some \<lparr>moisture = Number ds, ph = None, nitrogen = None, phosphorus = None,
           potassium = None\<rparr>"
    by (simp add: capture_group_def)
  with p(1) d show ?thesis
    by blast
qed

theorem soil_from_text_witness:
  "soil (fetchAgent (answers 200 (no_keys\<lparr>data_message := Some field_message\<rparr>) Resolved)
      [] initial) =
     Some \<lparr>moisture = Finite 42, ph = None, nitrogen = None, phosphorus = None,
           potassium = None\<rparr>"
proof -
  have f: "fetch_result (answers 200 (no_keys\<lparr>data_message := Some field_message\<rparr>) Resolved)
      = Response 200 (Some (no_keys\<lparr>data_message := Some field_message\<rparr>))"
    by (simp add: answers_def)
  have k: "ok 200"
    by (simp add: ok_def)
  have d: "data_soil (no_keys\<lparr>data_message := Some field_message\<rparr>) = None"
    by (simp add: no_keys_def)
  have m: "data_message (no_keys\<lparr>data_message := Some field_message\<rparr>) = Some field_message"
    by simp
  show ?thesis
    using soil_from_text [OF f k d m field_match, of "[]" initial]
    by (auto simp: Number_42)
qed

section \<open>A submission that the server refuses\<close>

text \<open>
  C3, as the claim states it, fails: \<^verbatim>\<open>fetchAgent\<close> clears the message, the weather and
  the soil before it sends the request, so after a reply with status 500 the page no
  longer shows what it showed before.
\<close>

theorem failed_submission_counterexample:
  "agentText shown = js ''Irrigate today'' \<and> weather shown \<noteq> None \<and> soil shown \<noteq> None \<and>
   agentText (fetchAgent server_error [] shown) = [] \<and>
   weather (fetchAgent server_error [] shown) = None \<and>
   soil (fetchAgent server_error [] shown) = None \<and>
   js ''Irrigate today'' \<noteq> []"
  by (simp add: fetchAgent_def server_error_def shown_def ok_def fetch_failed_def emit_def
      js_Cons)

text \<open>
  C3, amended.  After a reply with a status outside 200..299 an error carrying that status
  has been raised and logged, the user has been alerted, and nothing of the reply has been
  applied; message, weather and soil are the cleared ones that \<^verbatim>\<open>fetchAgent\<close> set when
  the submission began, and every other hook is as before.
\<close>

theorem failed_submission:
  assumes "fetch_result env = Response status body" and "\<not> ok status"
  shows "fetchAgent env fd s =
     s\<lparr>loading := False, agentText := [], weather := None, soil := None,
       trace := trace s @ [Fetch fd, ConsoleError (ServerError status),
                           Alert (js ''Failed to fetch advice. Try again.'')]\<rparr>"
  using assms by (simp add: fetchAgent_def fetch_failed_def emit_def)

theorem failed_submission_witness:
  "fetchAgent server_error [] shown =
     initial\<lparr>trace := [Fetch [], ConsoleError (ServerError 500),
                         Alert (js ''Failed to fetch advice. Try again.'')]\<rparr>"
proof -
  have f: "fetch_result server_error = Response 500 None"
    by (simp add: server_error_def)
  have k: "\<not> ok 500"
    by (simp add: ok_def)
  show ?thesis
    using failed_submission [OF f k, of "[]" shown]
    by (simp add: shown_def initial_def)
qed

section \<open>What a submission and a capture leave alone\<close>

lemma weather_section_recorder:
  "mediaRecorderRef (weather_section data s) = mediaRecorderRef s"
  "recording (weather_section data s) = recording s"
  "audioChunksRef (weather_section data s) = audioChunksRef s"
  by (simp_all add: weather_section_def split: option.splits)

lemma soil_section_recorder:
  "mediaRecorderRef (soil_section data s) = mediaRecorderRef s"
  "recording (soil_section data s) = recording s"
  "audioChunksRef (soil_section data s) = audioChunksRef s"
  by (simp_all add: soil_section_def split: option.splits)

lemma audio_section_recorder:
  "mediaRecorderRef (audio_section p data s) = mediaRecorderRef s"
  "recording (audio_section p data s) = recording s"
  "audioChunksRef (audio_section p data s) = audioChunksRef s"
  by (simp_all add: audio_section_def emit_def Let_def split: option.splits play_result.splits)

lemma audio_section_pushes:
  "filter is_push (trace (audio_section p data s)) = filter is_push (trace s)"
  by (simp add: audio_section_def emit_def Let_def split: option.splits play_result.splits)

lemma fetchAgent_recorder:
  "mediaRecorderRef (fetchAgent env fd s) = mediaRecorderRef s"
  "recording (fetchAgent env fd s) = recording s"
  "audioChunksRef (fetchAgent env fd s) = audioChunksRef s"
  by (simp_all add: fetchAgent_def fetch_failed_def emit_def Let_def audio_section_recorder
      soil_section_recorder weather_section_recorder split: fetch_result.splits option.splits)

lemma fetchAgent_trace:
  "\<exists>rest. trace (fetchAgent env fd s) = trace s @ Fetch fd # rest"
  by (simp add: fetchAgent_def fetch_failed_def emit_def Let_def audio_section_def
      soil_section_frame weather_section_frame
      split: fetch_result.splits option.splits play_result.splits)

lemma fetchAgent_pushes:
  "filter is_push (trace (fetchAgent env fd s)) = filter is_push (trace s)"
  by (simp add: fetchAgent_def fetch_failed_def emit_def Let_def audio_section_pushes
      soil_section_frame weather_section_frame split: fetch_result.splits option.splits)

lemma capture_chunks:
  "foldl (\<lambda>s d. ondataavailable d s) s chunks =
     s\<lparr>audioChunksRef := audioChunksRef s @ filter (\<lambda>d. d \<noteq> []) chunks\<rparr>"
  by (induction chunks arbitrary: s) (simp_all add: ondataavailable_def)

lemma capture_eq:
  "capture chunks s =
     s\<lparr>audioChunksRef := filter (\<lambda>d. d \<noteq> []) chunks,
       mediaRecorderRef := Some \<lparr>rstate = Recording, captured_query = query s\<rparr>,
       recording := True\<rparr>"
  by (simp add: capture_def capture_chunks startRecording_def)

lemma concat_nonempty: "concat (filter (\<lambda>d. d \<noteq> []) xs) = concat xs"
  by (induction xs) simp_all

lemma capture_chunks_h:
  "foldl (\<lambda>s d. ondataavailable_h d s) s chunks =
     s\<lparr>audioChunksRef_h := audioChunksRef_h s @ filter (\<lambda>d. d \<noteq> []) chunks\<rparr>"
  by (induction chunks arbitrary: s) (simp_all add: ondataavailable_h_def)

lemma capture_h_eq:
  "capture_h chunks s =
     s\<lparr>audioChunksRef_h := filter (\<lambda>d. d \<noteq> []) chunks, mediaRecorderRef_h := Some Recording,
       recording_h := True\<rparr>"
  by (simp add: capture_h_def capture_chunks_h startRecording_h_def)

lemma redirect_recorder:
  "mediaRecorderRef_h (redirect data s) = mediaRecorderRef_h s"
  "recording_h (redirect data s) = recording_h s"
  "audioChunksRef_h (redirect data s) = audioChunksRef_h s"
  by (simp_all add: redirect_def emit_h_def split: option.splits)

lemma sendToBackend_recorder:
  "mediaRecorderRef_h (sendToBackend env s) = mediaRecorderRef_h s"
  "recording_h (sendToBackend env s) = recording_h s"
  "audioChunksRef_h (sendToBackend env s) = audioChunksRef_h s"
  by (simp_all add: sendToBackend_def send_failed_def emit_h_def Let_def redirect_recorder
      split: fetch_result.splits option.splits play_result.splits)

lemma redirect_trace: "\<exists>rest. trace_h (redirect data s) = trace_h s @ rest"
  by (simp add: redirect_def emit_h_def split: option.splits)

lemma sendToBackend_trace:
  "\<exists>rest. trace_h (sendToBackend env s) =
     trace_h s @ Fetch [(js ''audio'', File (concat (audioChunksRef_h s)) (js ''audio/webm'')
       (js ''customer_audio.webm''))] # rest"
  by (simp add: sendToBackend_def send_failed_def emit_h_def Let_def redirect_def
      split: fetch_result.splits option.splits play_result.splits)

lemma session_idle: "idle (session env chunks s)"
  by (simp add: session_def capture_eq stopRecording_def idle_def onstop_def Let_def
      fetchAgent_recorder ondataavailable_def)

lemma session_h_idle: "idle_h (session_h env chunks s)"
  by (simp add: session_h_def capture_h_eq stopRecording_h_def idle_h_def
      sendToBackend_recorder ondataavailable_h_def)

section \<open>Stopping when nothing is being recorded\<close>

text \<open>
  C4.  On both pages, when no recording is active, \<^verbatim>\<open>stopRecording\<close> returns the state it
  was given, its trace included: no hook changes and no request is sent.  The state that a
  completed recording session leaves behind is such a state, although the recorder is
  still held in \<^verbatim>\<open>mediaRecorderRef\<close>: it is inactive.
\<close>

theorem stop_when_idle:
  "(idle s \<longrightarrow>
      stopRecording env s = s \<and>
      filter is_fetch (trace (stopRecording env s)) = filter is_fetch (trace s)) \<and>
   (idle_h h \<longrightarrow>
      stopRecording_h env h = h \<and>
      filter is_fetch (trace_h (stopRecording_h env h)) = filter is_fetch (trace_h h)) \<and>
   idle (session env' chunks s) \<and> idle_h (session_h env' chunks h)"
proof -
  have "stopRecording env s = s" if "idle s"
    using that
    by (auto simp: idle_def stopRecording_def split: option.splits recording_state.splits)
  moreover have "stopRecording_h env h = h" if "idle_h h"
    using that
    by (auto simp: idle_h_def stopRecording_h_def split: option.splits recording_state.splits)
  ultimately show ?thesis
    using session_idle session_h_idle by simp
qed

theorem stop_when_idle_witness:
  "stopRecording (answers 200 both_reply Resolved) initial = initial \<and>
   stopRecording (answers 200 both_reply Resolved)
       (session (answers 200 no_keys Resolved) [[1, 2], [3]] initial) =
     session (answers 200 no_keys Resolved) [[1, 2], [3]] initial \<and>
   stopRecording_h (answers 200 both_reply Resolved)
       (session_h (answers 200 no_keys Resolved) [[1, 2], [3]] initial_h) =
     session_h (answers 200 no_keys Resolved) [[1, 2], [3]] initial_h"
proof -
  have "idle initial"
    by (simp add: idle_def initial_def)
  then show ?thesis
    using
      stop_when_idle [of initial "answers 200 both_reply Resolved" initial_h
        "answers 200 no_keys Resolved" "[[1, 2], [3]]"]
      stop_when_idle [of "session (answers 200 no_keys Resolved) [[1, 2], [3]] initial"
        "answers 200 both_reply Resolved"
        "session_h (answers 200 no_keys Resolved) [[1, 2], [3]] initial_h"
        "answers 200 no_keys Resolved" "[[1, 2], [3]]"]
    by blast
qed

section \<open>Starting while a recording is active\<close>

text \<open>
  C5, as the claim states it, fails: \<^verbatim>\<open>startRecording\<close> has no guard of its own, and with
  the microphone granted it empties the chunk buffer of the recording that is active.
\<close>

theorem start_while_recording_counterexample:
  "recording (capture [[1, 2, 3]] initial) \<and>
   audioChunksRef (capture [[1, 2, 3]] initial) = [[1, 2, 3]] \<and>
   audioChunksRef (startRecording MicGranted (capture [[1, 2, 3]] initial)) = [] \<and>
   recording_h (capture_h [[1, 2, 3]] initial_h) \<and>
   audioChunksRef_h (capture_h [[1, 2, 3]] initial_h) = [[1, 2, 3]] \<and>
   audioChunksRef_h (startRecording_h MicGranted (capture_h [[1, 2, 3]] initial_h)) = []"
  by (simp add: capture_eq capture_h_eq startRecording_def startRecording_h_def)

text \<open>
  C5, amended.  On both pages, \<^verbatim>\<open>startRecording\<close> invoked while the state is Recording
  leaves the state Recording.  When the microphone is not obtained, the chunk buffer and
  the recorder held are unchanged; when it is obtained, the chunk buffer is emptied and a
  new recorder replaces the one held.
\<close>

theorem start_while_recording:
  "(recording s \<longrightarrow>
      recording (startRecording mic s) \<and>
      (mic = MicDenied \<longrightarrow>
         audioChunksRef (startRecording mic s) = audioChunksRef s \<and>
         mediaRecorderRef (startRecording mic s) = mediaRecorderRef s) \<and>
      (mic = MicGranted \<longrightarrow>
         audioChunksRef (startRecording mic s) = [] \<and>
         mediaRecorderRef (startRecording mic s) =
           Some \<lparr>rstate = Recording, captured_query = query s\<rparr>)) \<and>
   (recording_h h \<longrightarrow>
      recording_h (startRecording_h mic h) \<and>
      (mic = MicDenied \<longrightarrow>
         audioChunksRef_h (startRecording_h mic h) = audioChunksRef_h h \<and>
         mediaRecorderRef_h (startRecording_h mic h) = mediaRecorderRef_h h) \<and>
      (mic = MicGranted \<longrightarrow>
         audioChunksRef_h (startRecording_h mic h) = [] \<and>
         mediaRecorderRef_h (startRecording_h mic h) = Some Recording))"
  by (cases mic) (simp_all add: startRecording_def startRecording_h_def emit_def emit_h_def)

theorem start_while_recording_witness:
  "audioChunksRef (startRecording MicDenied (capture [[1, 2, 3]] initial)) = [[1, 2, 3]] \<and>
   recording (startRecording MicDenied (capture [[1, 2, 3]] initial)) \<and>
   audioChunksRef (startRecording MicGranted (capture [[1, 2, 3]] initial)) = [] \<and>
   recording (startRecording MicGranted (capture [[1, 2, 3]] initial)) \<and>
   audioChunksRef_h (startRecording_h MicDenied (capture_h [[1, 2, 3]] initial_h)) = [[1, 2, 3]] \<and>
   recording_h (startRecording_h MicDenied (capture_h [[1, 2, 3]] initial_h)) \<and>
   audioChunksRef_h (startRecording_h MicGranted (capture_h [[1, 2, 3]] initial_h)) = [] \<and>
   recording_h (startRecording_h MicGranted (capture_h [[1, 2, 3]] initial_h))"
proof -
  have r: "recording (capture [[1, 2, 3]] initial)"
    and c: "audioChunksRef (capture [[1, 2, 3]] initial) = [[1, 2, 3]]"
    and r': "recording_h (capture_h [[1, 2, 3]] initial_h)"
    and c': "audioChunksRef_h (capture_h [[1, 2, 3]] initial_h) = [[1, 2, 3]]"
    by (simp_all add: capture_eq capture_h_eq)
  show ?thesis
    using r c r' c'
      start_while_recording [of "capture [[1, 2, 3]] initial" MicDenied
        "capture_h [[1, 2, 3]] initial_h"]
      start_while_recording [of "capture [[1, 2, 3]] initial" MicGranted
        "capture_h [[1, 2, 3]] initial_h"]
    by simp
qed

section \<open>The chunks of one recording session\<close>

lemma ondataavailable_eq:
  "ondataavailable d s = s\<lparr>audioChunksRef := audioChunksRef s @ filter (\<lambda>d. d \<noteq> []) [d]\<rparr>"
  by (simp add: ondataavailable_def)

lemma ondataavailable_h_eq:
  "ondataavailable_h d s =
     s\<lparr>audioChunksRef_h := audioChunksRef_h s @ filter (\<lambda>d. d \<noteq> []) [d]\<rparr>"
  by (simp add: ondataavailable_h_def)

lemma session_eq:
  "session env chunks s =
     fetchAgent env
       ((js ''audio'',
         File (concat (chunks @ [final_chunk env])) (js ''audio/webm'') (js ''voice.webm'')) #
        (if trim (query s) \<noteq> [] then [(js ''question'', Text (query s))] else []))
       (s\<lparr>audioChunksRef := filter (\<lambda>d. d \<noteq> []) (chunks @ [final_chunk env]),
          mediaRecorderRef := Some \<lparr>rstate = Inactive, captured_query = query s\<rparr>,
          recording := False\<rparr>)"
proof -
  let ?s = "s\<lparr>audioChunksRef := filter (\<lambda>d. d \<noteq> []) (chunks @ [final_chunk env]),
          mediaRecorderRef := Some \<lparr>rstate = Inactive, captured_query = query s\<rparr>,
          recording := False\<rparr>"
  have st: "ondataavailable (final_chunk env)
      ((capture chunks s)\<lparr>mediaRecorderRef :=
          Some (\<lparr>rstate = Recording, captured_query = query s\<rparr>\<lparr>rstate := Inactive\<rparr>),
        recording := False\<rparr>) = ?s"
    by (cases s) (simp add: capture_eq ondataavailable_eq)
  have c: "concat (audioChunksRef ?s) = concat (chunks @ [final_chunk env])"
    using concat_nonempty [of "chunks @ [final_chunk env]"] by simp
  have "session env chunks s =
      onstop env (query s) ?s"
    unfolding st [symmetric] by (simp add: session_def stopRecording_def capture_eq)
  also have "\<dots> = fetchAgent env
       ((js ''audio'',
         File (concat (chunks @ [final_chunk env])) (js ''audio/webm'') (js ''voice.webm'')) #
        (if trim (query s) \<noteq> [] then [(js ''question'', Text (query s))] else [])) ?s"
    unfolding onstop_def Let_def c by simp
  finally show ?thesis .
qed

lemma session_h_eq:
  "session_h env chunks s =
     sendToBackend env
       (s\<lparr>audioChunksRef_h := filter (\<lambda>d. d \<noteq> []) (chunks @ [final_chunk env]),
          mediaRecorderRef_h := Some Inactive, recording_h := False\<rparr>)"
proof -
  have "ondataavailable_h (final_chunk env)
      ((capture_h chunks s)\<lparr>mediaRecorderRef_h := Some Inactive, recording_h := False\<rparr>) =
    s\<lparr>audioChunksRef_h := filter (\<lambda>d. d \<noteq> []) (chunks @ [final_chunk env]),
          mediaRecorderRef_h := Some Inactive, recording_h := False\<rparr>"
    by (cases s) (simp add: capture_h_eq ondataavailable_h_eq)
  then show ?thesis
    by (simp add: session_h_def stopRecording_h_def capture_h_eq)
qed

text \<open>
  C9, as the claim states it, fails: a chunk of size 0 is not appended to the buffer
  (\<^verbatim>\<open>if (e.data.size > 0)\<close>).
\<close>

theorem chunks_counterexample:
  "audioChunksRef (capture [[1], [], [2]] initial) = [[1], [2]] \<and>
   audioChunksRef_h (capture_h [[1], [], [2]] initial_h) = [[1], [2]] \<and>
   [[1], [2]] \<noteq> [[1], [], [2 :: 8 word]]"
  by (simp add: capture_eq capture_h_eq)

text \<open>
  C9, amended.  On both pages, the buffer after the chunks of one session holds exactly the
  non-empty chunks, in arrival order; the audio of the request sent at the stop is the
  concatenation, in that order, of the chunks captured and of the data delivered by the
  stop itself.  Leaving out the empty chunks loses no byte.
\<close>

theorem chunks_in_order:
  "audioChunksRef (capture chunks s) = filter (\<lambda>d. d \<noteq> []) chunks \<and>
   (\<exists>rest. trace (session env chunks s) =
      trace s @
      Fetch ((js ''audio'',
              File (concat (chunks @ [final_chunk env])) (js ''audio/webm'') (js ''voice.webm'')) #
             (if trim (query s) \<noteq> [] then [(js ''question'', Text (query s))] else [])) # rest) \<and>
   audioChunksRef_h (capture_h chunks h) = filter (\<lambda>d. d \<noteq> []) chunks \<and>
   (\<exists>rest. trace_h (session_h env chunks h) =
      trace_h h @
      Fetch [(js ''audio'',
              File (concat (chunks @ [final_chunk env])) (js ''audio/webm'')
                (js ''customer_audio.webm''))] # rest)"
proof -
  have a: "concat (filter (\<lambda>d. d \<noteq> []) (chunks @ [final_chunk env])) =
      concat (chunks @ [final_chunk env])"
    by (rule concat_nonempty)
  have "\<exists>rest. trace (session env chunks s) =
      trace s @
      Fetch ((js ''audio'',
              File (concat (chunks @ [final_chunk env])) (js ''audio/webm'') (js ''voice.webm'')) #
             (if trim (query s) \<noteq> [] then [(js ''question'', Text (query s))] else [])) # rest"
    unfolding session_eq
    using fetchAgent_trace
      [of env _ "s\<lparr>audioChunksRef := filter (\<lambda>d. d \<noteq> []) (chunks @ [final_chunk env]),
          mediaRecorderRef := Some \<lparr>rstate = Inactive, captured_query = query s\<rparr>,
          recording := False\<rparr>"]
    by simp
  moreover have "\<exists>rest. trace_h (session_h env chunks h) =
      trace_h h @
      Fetch [(js ''audio'',
              File (concat (chunks @ [final_chunk env])) (js ''audio/webm'')
                (js ''customer_audio.webm''))] # rest"
  proof -
    let ?h = "h\<lparr>audioChunksRef_h := filter (\<lambda>d. d \<noteq> []) (chunks @ [final_chunk env]),
          mediaRecorderRef_h := Some Inactive, recording_h := False\<rparr>"
    have "audioChunksRef_h ?h = filter (\<lambda>d. d \<noteq> []) (chunks @ [final_chunk env])"
      and "trace_h ?h = trace_h h"
      by simp_all
    with sendToBackend_trace [of env ?h] a show ?thesis
      unfolding session_h_eq by (simp only:)
  qed
  ultimately show ?thesis
    by (simp add: capture_eq capture_h_eq)
qed

theorem chunks_in_order_witness:
  "audioChunksRef (capture [[1], [], [2]] initial) = [[1], [2]] \<and>
   (\<exists>rest. trace (session (answers 200 no_keys Resolved) [[1], [], [2]] initial) =
      Fetch [(js ''audio'', File [1, 2] (js ''audio/webm'') (js ''voice.webm''))] # rest) \<and>
   audioChunksRef_h (capture_h [[1], [], [2]] initial_h) = [[1], [2]] \<and>
   (\<exists>rest. trace_h (session_h (answers 200 no_keys Resolved) [[1], [], [2]] initial_h) =
      Fetch [(js ''audio'', File [1, 2] (js ''audio/webm'') (js ''customer_audio.webm''))] # rest)"
  using chunks_in_order [of "[[1], [], [2]]" initial "answers 200 no_keys Resolved" initial_h]
  by (simp add: answers_def initial_def initial_h_def trim_def)

section \<open>Playback that does not start, on the home page\<close>

text \<open>
  C8.  On the home page, for a reply with \<^verbatim>\<open>audio_url\<close> present, \<^verbatim>\<open>redirect\<close> true and a
  non-empty \<^verbatim>\<open>redirect_url\<close>, when \<^verbatim>\<open>audio.play()\<close> rejects the rejection is only
  logged as a warning: no alert is raised, \<^verbatim>\<open>router.push(redirect_url)\<close> is called exactly
  once, and no \<^verbatim>\<open>onended\<close> handler is left behind that could call it again.
\<close>

theorem blocked_playback_still_redirects:
  assumes "fetch_result env = Response status (Some data)" and "ok status"
    and "data_audio_url data = Some u"
    and "data_redirect data = Some True" and "data_redirect_url data = Some v" and "v \<noteq> []"
    and "play_result env = Blocked"
  shows "trace_h (sendToBackend env s) =
     trace_h s @
     [Fetch [(js ''audio'', File (concat (audioChunksRef_h s)) (js ''audio/webm'')
        (js ''customer_audio.webm''))], ConsoleLog data] @
     (if u = [] then [] else [Play (backend @ u), ConsoleWarn PlaybackBlocked]) @
     [RouterPush v] \<and>
   filter is_push (drop (length (trace_h s)) (trace_h (sendToBackend env s))) = [RouterPush v] \<and>
   filter is_alert (drop (length (trace_h s)) (trace_h (sendToBackend env s))) = [] \<and>
   onended_h (sendToBackend env s) = onended_h s"
proof -
  have t: "trace_h (sendToBackend env s) =
     trace_h s @
     [Fetch [(js ''audio'', File (concat (audioChunksRef_h s)) (js ''audio/webm'')
        (js ''customer_audio.webm''))], ConsoleLog data] @
     (if u = [] then [] else [Play (backend @ u), ConsoleWarn PlaybackBlocked]) @
     [RouterPush v]"
    using assms by (simp add: sendToBackend_def Let_def emit_h_def redirect_def)
  have o: "onended_h (sendToBackend env s) = onended_h s"
    using assms by (simp add: sendToBackend_def Let_def emit_h_def redirect_def)
  show ?thesis
    unfolding t using o by simp
qed

theorem blocked_playback_still_redirects_witness:
  "filter is_push (trace_h (sendToBackend (answers 200 redirect_reply Blocked) initial_h)) =
     [RouterPush (js ''/irrigation'')] \<and>
   filter is_alert (trace_h (sendToBackend (answers 200 redirect_reply Blocked) initial_h)) = [] \<and>
   onended_h (sendToBackend (answers 200 redirect_reply Blocked) initial_h) = []"
proof -
  have f: "fetch_result (answers 200 redirect_reply Blocked) = Response 200 (Some redirect_reply)"
    and p: "play_result (answers 200 redirect_reply Blocked) = Blocked"
    by (simp_all add: answers_def)
  have k: "ok 200"
    by (simp add: ok_def)
  have a: "data_audio_url redirect_reply = Some (js ''/audio/reply.mp3'')"
    and r: "data_redirect redirect_reply = Some True"
    and u: "data_redirect_url redirect_reply = Some (js ''/irrigation'')"
    by (simp_all add: redirect_reply_def)
  have n: "js ''/irrigation'' \<noteq> []"
    by (simp add: js_Cons)
  have t: "trace_h initial_h = []" and o: "onended_h initial_h = []"
    by (simp_all add: initial_h_def)
  show ?thesis
    using blocked_playback_still_redirects [OF f k a r u n p, of initial_h]
    unfolding t o by simp
qed

section \<open>No redirect on the irrigation advice page\<close>

lemma sections_ignore_redirect:
  "weather_section (data\<lparr>data_redirect := r, data_redirect_url := u\<rparr>) s = weather_section data s"
  "soil_section (data\<lparr>data_redirect := r, data_redirect_url := u\<rparr>) s = soil_section data s"
  "audio_section p (data\<lparr>data_redirect := r, data_redirect_url := u\<rparr>) s =
     audio_section p data s"
  by (simp_all add: weather_section_def soil_section_def audio_section_def split: option.splits)

text \<open>
  C10.  On the irrigation advice page nothing ever calls \<^verbatim>\<open>router.push\<close>: whatever the
  outside answers, \<^verbatim>\<open>fetchAgent\<close> adds no such call to the trace, and neither do the
  handlers that invoke it; the result of \<^verbatim>\<open>fetchAgent\<close> does not depend on the keys
  \<^verbatim>\<open>redirect\<close> and \<^verbatim>\<open>redirect_url\<close> of the reply.
\<close>

theorem no_redirect_on_advice_page:
  "filter is_push (trace (fetchAgent env fd s)) = filter is_push (trace s) \<and>
   fetchAgent (env\<lparr>fetch_result :=
       Response status (Some (data\<lparr>data_redirect := r, data_redirect_url := u\<rparr>))\<rparr>) fd s =
     fetchAgent (env\<lparr>fetch_result := Response status (Some data)\<rparr>) fd s \<and>
   filter is_push (trace (handleSubmit env s)) = filter is_push (trace s) \<and>
   filter is_push (trace (stopRecording env s)) = filter is_push (trace s) \<and>
   filter is_push (trace (startRecording mic s)) = filter is_push (trace s)"
proof -
  have "fetchAgent (env\<lparr>fetch_result :=
       Response status (Some (data\<lparr>data_redirect := r, data_redirect_url := u\<rparr>))\<rparr>) fd s =
     fetchAgent (env\<lparr>fetch_result := Response status (Some data)\<rparr>) fd s"
    by (simp add: fetchAgent_def Let_def sections_ignore_redirect)
  moreover have "filter is_push (trace (handleSubmit env s)) = filter is_push (trace s)"
    by (simp add: handleSubmit_def fetchAgent_pushes emit_def)
  moreover have "filter is_push (trace (stopRecording env s)) = filter is_push (trace s)"
    by (simp add: stopRecording_def onstop_def Let_def fetchAgent_pushes ondataavailable_def
        split: option.splits recording_state.splits)
  moreover have "filter is_push (trace (startRecording mic s)) = filter is_push (trace s)"
    by (cases mic) (simp_all add: startRecording_def emit_def)
  ultimately show ?thesis
    using fetchAgent_pushes by simp
qed

theorem no_redirect_on_advice_page_witness:
  "filter is_push (trace (fetchAgent (answers 200 redirect_reply Blocked) [] initial)) = []"
  using no_redirect_on_advice_page [of "answers 200 redirect_reply Blocked" "[]" initial]
  by (simp add: initial_def)

end
